theory Spec2Isabelle
  imports Main
begin

section \<open>Decimal rendering of integers\<close>

text \<open>
  Both programs of the repository turn numbers into text: the shell script expands
  \<^verbatim>\<open>$$\<close> and \<^verbatim>\<open>${attempt}\<close> inside the run directory name, and the page calls
  \<^verbatim>\<open>String(error)\<close> on a thrown value. \<open>show_nat\<close> is the decimal numeral without leading
  zeros.
\<close>

definition digit_char :: "nat \<Rightarrow> char" where
  "digit_char d = char_of (48 + d)"

definition is_digit :: "char \<Rightarrow> bool" where
  "is_digit c = (48 \<le> (of_char c :: nat) \<and> (of_char c :: nat) \<le> 57)"

fun show_nat :: "nat \<Rightarrow> string" where
  "show_nat n = (if n < 10 then [digit_char n] else show_nat (n div 10) @ [digit_char (n mod 10)])"

declare show_nat.simps [simp del]

definition show_int :: "int \<Rightarrow> string" where
  "show_int i = (if i < 0 then CHR ''-'' # show_nat (nat (- i)) else show_nat (nat i))"

section \<open>The browser test page (web-client/app/page.tsx)\<close>

subsection \<open>Data\<close>

text \<open>
  \<^verbatim>\<open>type TutorialState = "running" | "passed" | "failed"\<close>,
  \<^verbatim>\<open>type TutorialStatus = { state: TutorialState; error?: string }\<close> and
  \<^verbatim>\<open>type TutorialStatusMap = Record<string, TutorialStatus>\<close>.
  An absent \<^verbatim>\<open>error\<close> field (\<^verbatim>\<open>undefined\<close>) is \<open>None\<close>. The keys are ordinary
  property names, as the five tutorial names of the page are; the special key
  \<^verbatim>\<open>__proto__\<close> is not modelled.
\<close>

datatype TutorialState = Running | Passed | Failed

record TutorialStatus =
  state :: TutorialState
  error :: "string option"

type_synonym TutorialStatusMap = "string \<rightharpoonup> TutorialStatus"

text \<open>
  The values a rejected promise can carry, as far as \<^verbatim>\<open>updateTutorialStatus\<close> tells them
  apart: an instance of \<^verbatim>\<open>Error\<close> with its \<^verbatim>\<open>name\<close> and \<^verbatim>\<open>message\<close>, the primitive
  values, whose truthiness and \<^verbatim>\<open>String(...)\<close> conversion are those of JavaScript, and
  any other object, given by the text \<^verbatim>\<open>String(...)\<close> makes of it. Numbers are the
  integer-valued ones. Objects whose conversion to a string throws are not modelled.
\<close>

datatype js_value =
    JUndefined
  | JNull
  | JBoolean bool
  | JNumber int
  | JString string
  | JError string string
  | JObject string

fun instanceof_Error :: "js_value \<Rightarrow> bool" where
  "instanceof_Error (JError nm msg) = True"
| "instanceof_Error v = False"

fun truthy :: "js_value \<Rightarrow> bool" where
  "truthy JUndefined = False"
| "truthy JNull = False"
| "truthy (JBoolean b) = b"
| "truthy (JNumber n) = (n \<noteq> 0)"
| "truthy (JString s) = (s \<noteq> [])"
| "truthy (JError nm msg) = True"
| "truthy (JObject txt) = True"

fun String_of :: "js_value \<Rightarrow> string" where
  "String_of JUndefined = ''undefined''"
| "String_of JNull = ''null''"
| "String_of (JBoolean b) = (if b then ''true'' else ''false'')"
| "String_of (JNumber n) = show_int n"
| "String_of (JString s) = s"
| "String_of (JError nm msg) =
     (if nm = [] then msg else if msg = [] then nm else nm @ '': '' @ msg)"
| "String_of (JObject txt) = txt"

text \<open>
  What the page can observe and change: whether \<^verbatim>\<open>window\<close> exists, the property
  \<^verbatim>\<open>window.__tutorialStatus\<close> (\<open>None\<close> while it is \<^verbatim>\<open>undefined\<close>), the React flag behind
  \<^verbatim>\<open>setIsRunning\<close>, and the calls made so far, in order.
\<close>

datatype call =
    SetIsRunning bool
  | StatusWrite string TutorialStatus
  | ActionInvoked
  | ConsoleError string js_value

record page =
  window_defined :: bool
  tutorialStatus :: "TutorialStatusMap option"
  isRunning :: bool
  calls :: "call list"

subsection \<open>updateTutorialStatus\<close>

text \<open>
  \<^verbatim>\<open>error instanceof Error ? `${error.name}: ${error.message}` : error ? String(error) : undefined\<close>
\<close>

definition error_text :: "js_value \<Rightarrow> string option" where
  "error_text err =
     (if instanceof_Error err
      then (case err of JError nm msg \<Rightarrow> Some (nm @ '': '' @ msg) | _ \<Rightarrow> None)
      else if truthy err then Some (String_of err)
      else None)"

definition updateTutorialStatus :: "string \<Rightarrow> TutorialState \<Rightarrow> js_value \<Rightarrow> page \<Rightarrow> page" where
  "updateTutorialStatus name st err p =
     (if \<not> window_defined p then p
      else
        let current = (case tutorialStatus p of None \<Rightarrow> Map.empty | Some m \<Rightarrow> m);
            entry = \<lparr>state = st, error = error_text err\<rparr>
        in p\<lparr>tutorialStatus := Some (current(name \<mapsto> entry)),
              calls := calls p @ [StatusWrite name entry]\<rparr>)"

text \<open>Reading \<^verbatim>\<open>window.__tutorialStatus?.[name]\<close>, as the Playwright test does.\<close>

definition status_of :: "page \<Rightarrow> string \<Rightarrow> TutorialStatus option" where
  "status_of p name = (case tutorialStatus p of None \<Rightarrow> None | Some m \<Rightarrow> m name)"

subsection \<open>runTutorial\<close>

text \<open>
  The action is an \<^verbatim>\<open>async\<close> function of the SDK examples; none of them touches
  \<^verbatim>\<open>window.__tutorialStatus\<close>. What \<^verbatim>\<open>await action()\<close> does is its outcome: the promise
  fulfils, rejects with a value (a synchronous throw is caught by the same \<^verbatim>\<open>try\<close>), or
  never settles.
\<close>

datatype promise_outcome = Fulfils | Rejects js_value | NeverSettles

text \<open>
  The completion of a block of statements: it ends normally, throws, or hangs at an
  \<^verbatim>\<open>await\<close>; each with the page state reached.
\<close>

datatype completion = Normal page | Throw js_value page | Hang page

definition setIsRunning :: "bool \<Rightarrow> page \<Rightarrow> page" where
  "setIsRunning v p = p\<lparr>isRunning := v, calls := calls p @ [SetIsRunning v]\<rparr>"

definition console_error :: "string \<Rightarrow> js_value \<Rightarrow> page \<Rightarrow> page" where
  "console_error label err p = p\<lparr>calls := calls p @ [ConsoleError label err]\<rparr>"

definition await_action :: "promise_outcome \<Rightarrow> page \<Rightarrow> completion" where
  "await_action action p =
     (let p' = p\<lparr>calls := calls p @ [ActionInvoked]\<rparr>
      in case action of
           Fulfils \<Rightarrow> Normal p'
         | Rejects err \<Rightarrow> Throw err p'
         | NeverSettles \<Rightarrow> Hang p')"

text \<open>\<^verbatim>\<open>try { await action(); updateTutorialStatus(name, "passed"); }\<close>\<close>

definition try_block :: "string \<Rightarrow> promise_outcome \<Rightarrow> page \<Rightarrow> completion" where
  "try_block name action p =
     (case await_action action p of
        Normal p' \<Rightarrow> Normal (updateTutorialStatus name Passed JUndefined p')
      | Throw err p' \<Rightarrow> Throw err p'
      | Hang p' \<Rightarrow> Hang p')"

text \<open>
  \<^verbatim>\<open>catch (error) { console.error(`[tutorial:${name}]`, error);
  updateTutorialStatus(name, "failed", error); }\<close>
\<close>

definition catch_block :: "string \<Rightarrow> js_value \<Rightarrow> page \<Rightarrow> completion" where
  "catch_block name err p =
     Normal (updateTutorialStatus name Failed err
               (console_error (''[tutorial:'' @ name @ '']'') err p))"

text \<open>\<^verbatim>\<open>finally { setIsRunning(false); }\<close>\<close>

definition finally_block :: "page \<Rightarrow> completion" where
  "finally_block p = Normal (setIsRunning False p)"

text \<open>
  \<^verbatim>\<open>try ... catch ... finally\<close>: a throw of the \<^verbatim>\<open>try\<close> block runs the handler; the
  finaliser runs after either, and a throw of the handler is thrown again after it. A
  block that hangs runs nothing more.
\<close>

definition try_catch_finally ::
  "(page \<Rightarrow> completion) \<Rightarrow> (js_value \<Rightarrow> page \<Rightarrow> completion) \<Rightarrow> (page \<Rightarrow> completion)
     \<Rightarrow> page \<Rightarrow> completion" where
  "try_catch_finally body handler finaliser p =
     (case body p of
        Normal p1 \<Rightarrow> finaliser p1
      | Hang p1 \<Rightarrow> Hang p1
      | Throw err p1 \<Rightarrow>
          (case handler err p1 of
             Normal p2 \<Rightarrow> finaliser p2
           | Hang p2 \<Rightarrow> Hang p2
           | Throw err' p2 \<Rightarrow>
               (case finaliser p2 of
                  Normal p3 \<Rightarrow> Throw err' p3
                | Throw err'' p3 \<Rightarrow> Throw err'' p3
                | Hang p3 \<Rightarrow> Hang p3)))"

text \<open>
  The promise returned by \<^verbatim>\<open>runTutorial\<close>: \<open>Normal\<close> is resolved, \<open>Throw\<close> is rejected,
  \<open>Hang\<close> is never settled.
\<close>

definition runTutorial :: "string \<Rightarrow> promise_outcome \<Rightarrow> page \<Rightarrow> completion" where
  "runTutorial name action p =
     (let p1 = setIsRunning True p;
          p2 = updateTutorialStatus name Running JUndefined p1
      in try_catch_finally (try_block name action) (catch_block name) finally_block p2)"

fun final_page :: "completion \<Rightarrow> page" where
  "final_page (Normal p) = p"
| "final_page (Throw err p) = p"
| "final_page (Hang p) = p"

fun is_rejected :: "completion \<Rightarrow> bool" where
  "is_rejected (Throw err p) = True"
| "is_rejected c = False"

fun is_resolved :: "completion \<Rightarrow> bool" where
  "is_resolved (Normal p) = True"
| "is_resolved c = False"

section \<open>The tutorial runner script (the shell script behind \<^verbatim>\<open>yarn tutorials\<close>)\<close>

subsection \<open>Catalogs\<close>

definition WEB_EXAMPLES :: "string list" where
  "WEB_EXAMPLES =
     [''createMintConsume'', ''multiSendWithDelegatedProver'', ''incrementCounterContract'',
      ''unauthenticatedNoteTransfer'', ''foreignProcedureInvocation'']"

definition WEB_SKIPPED :: "string list" where
  "WEB_SKIPPED = [''incrementCounterContract'', ''foreignProcedureInvocation'']"

definition RUST_EXAMPLES :: "string list" where
  "RUST_EXAMPLES =
     [''counter_contract_deploy'', ''counter_contract_fpi'', ''counter_contract_increment'',
      ''create_mint_consume_send'', ''delegated_prover'', ''hash_preimage_note'',
      ''mapping_example'', ''network_notes_counter_contract'', ''note_creation_in_masm'',
      ''oracle_data_query'', ''unauthenticated_note_transfer'']"

definition RUST_SKIPPED :: "string list" where
  "RUST_SKIPPED = [''counter_contract_fpi'', ''counter_contract_increment'', ''oracle_data_query'']"

text \<open>\<^verbatim>\<open>contains needle item...\<close>: a linear scan with a literal string comparison.\<close>

fun contains :: "string \<Rightarrow> string list \<Rightarrow> bool" where
  "contains needle [] = False"
| "contains needle (item # items) = (if item = needle then True else contains needle items)"

subsection \<open>What the script does to the outside\<close>

text \<open>
  One event per line written and per external command run, in order. \<open>Stdout\<close> and
  \<open>Stderr\<close> carry one line of text. \<open>Playwright pattern\<close> is
  \<^verbatim>\<open>yarn --cwd "$WEB_DIR" playwright test --grep pattern\<close>; \<open>CargoRun name dir\<close> is
  \<^verbatim>\<open>cargo run --bin name\<close> with working directory \<open>dir\<close> and its output copied to
  \<^verbatim>\<open>dir/output.log\<close> by \<^verbatim>\<open>tee\<close>; \<open>Sleep n\<close> is \<^verbatim>\<open>sleep n\<close>.
\<close>

datatype event =
    Stdout string
  | Stderr string
  | Playwright string
  | CargoClean
  | MkdirP string
  | LnS string string
  | CargoRun string string
  | Sleep nat

text \<open>
  The value of an environment variable: not set, set to the empty string, or set to a
  decimal integer. (Other texts are not modelled: the shell would evaluate them as an
  arithmetic expression in \<^verbatim>\<open>[[ "$attempt" -ge "$rust_retries" ]]\<close>.)
\<close>

datatype env_value = Unset | Empty | Decimal int

text \<open>
  Everything the script reads from outside: where it is installed, its process id,
  \<^verbatim>\<open>TUTORIAL_RETRIES\<close>, the exit status of each external command, the two file tests on
  \<^verbatim>\<open>$RUNS_DIR/masm\<close>, and the output of \<^verbatim>\<open>date +%Y%m%d-%H%M%S\<close> and the exit status of
  \<^verbatim>\<open>cargo run\<close> at the n-th attempt of the invocation (counted from 0). \<^verbatim>\<open>mkdir -p\<close>
  is taken to succeed.
\<close>

record world =
  ROOT_DIR :: string
  pid :: nat
  TUTORIAL_RETRIES :: env_value
  playwright_exit :: "string \<Rightarrow> nat"
  cargo_clean_exit :: nat
  masm_exists :: bool
  masm_is_symlink :: bool
  date_output :: "nat \<Rightarrow> string"
  cargo_run_exit :: "string \<Rightarrow> nat \<Rightarrow> nat"

definition WEB_DIR :: "world \<Rightarrow> string" where
  "WEB_DIR w = ROOT_DIR w @ ''/web-client''"

definition RUST_DIR :: "world \<Rightarrow> string" where
  "RUST_DIR w = ROOT_DIR w @ ''/rust-client''"

definition RUNS_DIR :: "world \<Rightarrow> string" where
  "RUNS_DIR w = RUST_DIR w @ ''/.tutorial-runs''"

subsection \<open>Usage and listing\<close>

definition usage :: "event list" where
  "usage =
     [Stdout ''Usage: yarn tutorials [--web[=name]] [--rust[=name]] [--list]'',
      Stdout [],
      Stdout ''Defaults to running all web and rust tutorials.'',
      Stdout [],
      Stdout ''Examples:'',
      Stdout ''  yarn tutorials'',
      Stdout ''  yarn tutorials --web'',
      Stdout ''  yarn tutorials --rust'',
      Stdout ''  yarn tutorials --web=createMintConsume'',
      Stdout ''  yarn tutorials --rust=counter_contract_deploy'']"

text \<open>The names a class runs when none is requested: the catalog without the skipped ones.\<close>

definition default_names :: "string list \<Rightarrow> string list \<Rightarrow> string list" where
  "default_names examples skipped = filter (\<lambda>name. \<not> contains name skipped) examples"

text \<open>\<^verbatim>\<open>printf "  %s\n" name...\<close>: one indented line per name.\<close>

definition print_names :: "string list \<Rightarrow> event list" where
  "print_names names = map (\<lambda>name. Stdout (''  '' @ name)) names"

definition list_class :: "string \<Rightarrow> string list \<Rightarrow> string list \<Rightarrow> event list" where
  "list_class label examples skipped =
     [Stdout (label @ '' tutorials (default):'')] @
     print_names (default_names examples skipped) @
     (if length skipped > 0
      then [Stdout [], Stdout (label @ '' tutorials (skipped by default):'')] @
           print_names skipped
      else [])"

definition listing :: "event list" where
  "listing =
     list_class ''Web'' WEB_EXAMPLES WEB_SKIPPED @ [Stdout []] @
     list_class ''Rust'' RUST_EXAMPLES RUST_SKIPPED"

subsection \<open>Parsing the arguments\<close>

text \<open>
  \<^verbatim>\<open>IFS=',' read -r -a parts <<< "$value"\<close> reads the first line of the value and splits
  it at each comma; the loop after it keeps the parts that are not empty. (The shell is
  taken to be bash 4.4 or later, where expanding an empty array under \<^verbatim>\<open>set -u\<close> is not
  an error.)
\<close>

fun split_at :: "char \<Rightarrow> string \<Rightarrow> string \<Rightarrow> string list" where
  "split_at sep part [] = [rev part]"
| "split_at sep part (c # cs) =
     (if c = sep then rev part # split_at sep [] cs else split_at sep (c # part) cs)"

definition name_parts :: "string \<Rightarrow> string list" where
  "name_parts v =
     filter (\<lambda>part. part \<noteq> [])
       (split_at CHR '','' [] (takeWhile (\<lambda>c. c \<noteq> CHR 0x0A) v))"

record selection =
  run_web :: bool
  run_rust :: bool
  saw_selector :: bool
  web_names :: "string list"
  rust_names :: "string list"

definition add_web_names :: "string \<Rightarrow> selection \<Rightarrow> selection" where
  "add_web_names v sel = sel\<lparr>web_names := web_names sel @ name_parts v\<rparr>"

definition add_rust_names :: "string \<Rightarrow> selection \<Rightarrow> selection" where
  "add_rust_names v sel = sel\<lparr>rust_names := rust_names sel @ name_parts v\<rparr>"

definition no_selection :: selection where
  "no_selection =
     \<lparr>run_web = False, run_rust = False, saw_selector = False, web_names = [], rust_names = []\<rparr>"

text \<open>
  The \<^verbatim>\<open>while [[ $# -gt 0 ]]\<close> loop either comes to the end of the arguments, or it
  leaves the script at once with some output and an exit status.
\<close>

datatype parsed = Proceed selection | Leave "event list" nat

text \<open>\<^verbatim>\<open>[[ $# -gt 1 && "${2:-}" != --* ]]\<close>, on the arguments after the current one.\<close>

definition names_follow :: "string list \<Rightarrow> bool" where
  "names_follow rest = (case rest of [] \<Rightarrow> False | b # bs \<Rightarrow> take 2 b \<noteq> ''--'')"

text \<open>
  The patterns of \<^verbatim>\<open>case "$1" in\<close>, tried in the order of the script: \<^verbatim>\<open>--web\<close>,
  \<^verbatim>\<open>--web=*\<close>, \<^verbatim>\<open>--rust\<close>, \<^verbatim>\<open>--rust=*\<close>, \<^verbatim>\<open>--list\<close>, \<^verbatim>\<open>--help|-h\<close>, \<^verbatim>\<open>*\<close>. The
  two patterns with \<^verbatim>\<open>=\<close> carry \<^verbatim>\<open>${1#--web=}\<close> and \<^verbatim>\<open>${1#--rust=}\<close>.
\<close>

datatype arg_pattern =
    WebFlag
  | WebNames string
  | RustFlag
  | RustNames string
  | ListFlag
  | HelpFlag
  | Unrecognised

definition match_arg :: "string \<Rightarrow> arg_pattern" where
  "match_arg a =
     (if a = ''--web'' then WebFlag
      else if take 6 a = ''--web='' then WebNames (drop 6 a)
      else if a = ''--rust'' then RustFlag
      else if take 7 a = ''--rust='' then RustNames (drop 7 a)
      else if a = ''--list'' then ListFlag
      else if a = ''--help'' \<or> a = ''-h'' then HelpFlag
      else Unrecognised)"

fun parse_args :: "string list \<Rightarrow> selection \<Rightarrow> parsed" where
  "parse_args [] sel = Proceed sel"
| "parse_args (a # rest) sel =
     (case match_arg a of
        WebFlag \<Rightarrow>
          (if names_follow rest
           then parse_args (tl rest)
                  (add_web_names (hd rest) (sel\<lparr>saw_selector := True, run_web := True\<rparr>))
           else parse_args rest (sel\<lparr>saw_selector := True, run_web := True\<rparr>))
      | WebNames v \<Rightarrow>
          parse_args rest (add_web_names v (sel\<lparr>saw_selector := True, run_web := True\<rparr>))
      | RustFlag \<Rightarrow>
          (if names_follow rest
           then parse_args (tl rest)
                  (add_rust_names (hd rest) (sel\<lparr>saw_selector := True, run_rust := True\<rparr>))
           else parse_args rest (sel\<lparr>saw_selector := True, run_rust := True\<rparr>))
      | RustNames v \<Rightarrow>
          parse_args rest (add_rust_names v (sel\<lparr>saw_selector := True, run_rust := True\<rparr>))
      | ListFlag \<Rightarrow> Leave listing 0
      | HelpFlag \<Rightarrow> Leave usage 0
      | Unrecognised \<Rightarrow> Leave (Stderr (''Unknown argument: '' @ a) # usage) 1)"

text \<open>\<^verbatim>\<open>if [[ "$saw_selector" -eq 0 ]]; then run_web=1; run_rust=1; fi\<close>\<close>

definition select_all_if_none :: "selection \<Rightarrow> selection" where
  "select_all_if_none sel =
     (if \<not> saw_selector sel then sel\<lparr>run_web := True, run_rust := True\<rparr> else sel)"

subsection \<open>Validating a selection\<close>

text \<open>\<^verbatim>\<open>"${names[*]}"\<close>: the elements joined by the first character of \<^verbatim>\<open>IFS\<close>.\<close>

fun join_with :: "char \<Rightarrow> string list \<Rightarrow> string" where
  "join_with sep [] = []"
| "join_with sep [x] = x"
| "join_with sep (x # y # ys) = x @ sep # join_with sep (y # ys)"

text \<open>
  The loop over the requested names of one class (\<open>cls\<close> is \<^verbatim>\<open>web\<close> or \<^verbatim>\<open>rust\<close>): it
  stops at the first name that is not in the catalog, with two lines on stderr, and
  prints a note for each requested name that is skipped by default. The result is the
  output and whether every name was known.
\<close>

fun validate_names :: "string \<Rightarrow> string list \<Rightarrow> string list \<Rightarrow> string list \<Rightarrow> event list \<times> bool" where
  "validate_names cls examples skipped [] = ([], True)"
| "validate_names cls examples skipped (name # names) =
     (if \<not> contains name examples
      then ([Stderr (''Unknown '' @ cls @ '' tutorial: '' @ name),
             Stderr (''Available '' @ cls @ '' tutorials: '' @ join_with CHR '' '' examples)],
            False)
      else
        (let note =
               (if contains name skipped
                then [Stdout (''Note: '' @ name @
                        '' is skipped by default but will run because it was explicitly requested.'')]
                else []);
             rest = validate_names cls examples skipped names
         in (note @ fst rest, snd rest)))"

subsection \<open>The state of a run\<close>

text \<open>
  The events so far, the array \<^verbatim>\<open>failures\<close>, and the number of attempts started so far
  in this invocation. A block of the script either goes on to the next one or ends the
  process with an exit status.
\<close>

record run_state =
  events :: "event list"
  failures :: "string list"
  attempts_made :: nat

datatype step = Continue run_state | Exit run_state nat

definition emit :: "event list \<Rightarrow> run_state \<Rightarrow> run_state" where
  "emit evs s = s\<lparr>events := events s @ evs\<rparr>"

subsection \<open>The browser class\<close>

definition web_selection :: "selection \<Rightarrow> string list" where
  "web_selection sel =
     (if length (web_names sel) = 0 then default_names WEB_EXAMPLES WEB_SKIPPED
      else web_names sel)"

definition web_block :: "world \<Rightarrow> selection \<Rightarrow> run_state \<Rightarrow> step" where
  "web_block w sel s =
     (if \<not> run_web sel then Continue s
      else
        let names = web_selection sel;
            checked = validate_names ''web'' WEB_EXAMPLES WEB_SKIPPED names;
            s1 = emit (fst checked) s
        in if \<not> snd checked then Exit s1 1
           else
             let web_pattern = join_with CHR ''|'' names;
                 s2 = emit [Stdout (''Running web tutorials: '' @ join_with CHR '' '' names),
                            Playwright web_pattern] s1
             in if playwright_exit w web_pattern \<noteq> 0
                then Continue (s2\<lparr>failures := failures s2 @ [''web'']\<rparr>)
                else Continue s2)"

subsection \<open>The native class\<close>

text \<open>\<^verbatim>\<open>rust_retries="${TUTORIAL_RETRIES:-3}"\<close>: 3 when the variable is unset or empty.\<close>

definition rust_retries :: "env_value \<Rightarrow> int" where
  "rust_retries v = (case v of Unset \<Rightarrow> 3 | Empty \<Rightarrow> 3 | Decimal n \<Rightarrow> n)"

text \<open>
  \<^verbatim>\<open>run_stamp="$(date +%Y%m%d-%H%M%S)-$$-attempt${attempt}"\<close> and
  \<^verbatim>\<open>run_dir="$RUNS_DIR/${name}-${run_stamp}"\<close>
\<close>

definition run_stamp :: "string \<Rightarrow> nat \<Rightarrow> nat \<Rightarrow> string" where
  "run_stamp date p attempt = date @ ''-'' @ show_nat p @ ''-attempt'' @ show_nat attempt"

definition run_dir :: "string \<Rightarrow> string \<Rightarrow> string \<Rightarrow> nat \<Rightarrow> nat \<Rightarrow> string" where
  "run_dir runs name date p attempt = runs @ ''/'' @ name @ ''-'' @ run_stamp date p attempt"

text \<open>One pass through the body of \<^verbatim>\<open>while true\<close>, up to the test of the exit status.\<close>

definition attempt_events :: "int \<Rightarrow> string \<Rightarrow> nat \<Rightarrow> string \<Rightarrow> event list" where
  "attempt_events retries name attempt dir =
     [MkdirP dir,
      Stdout (''Running rust tutorial: '' @ name @ '' (attempt '' @ show_nat attempt @ ''/'' @
              show_int retries @ '')''),
      Stdout (''Run directory: '' @ dir),
      CargoRun name dir,
      Stdout (''Output log: '' @ dir @ ''/output.log'')]"

text \<open>
  The retry loop of one name. It ends when the example exits with status 0, or when
  \<^verbatim>\<open>[[ "$attempt" -ge "$rust_retries" ]]\<close> holds after a failure; otherwise it sleeps
  and goes round again with the next attempt number.
\<close>

function attempt_loop :: "world \<Rightarrow> int \<Rightarrow> string \<Rightarrow> nat \<Rightarrow> run_state \<Rightarrow> run_state" where
  "attempt_loop w retries name attempt s =
     (let dir = run_dir (RUNS_DIR w) name (date_output w (attempts_made s)) (pid w) attempt;
          status = cargo_run_exit w name (attempts_made s);
          s1 = (emit (attempt_events retries name attempt dir) s)
                 \<lparr>attempts_made := Suc (attempts_made s)\<rparr>
      in if status = 0 then s1
         else if int attempt \<ge> retries then s1\<lparr>failures := failures s1 @ [''rust:'' @ name]\<rparr>
         else attempt_loop w retries name (attempt + 1)
                (emit [Stdout (''Retrying rust tutorial: '' @ name @ '' in 10s...''), Sleep 10] s1))"
  by pat_completeness auto
termination
  by (relation "measure (\<lambda>(w, retries, name, attempt, s). nat (retries - int attempt))") auto

declare attempt_loop.simps [simp del]

text \<open>\<^verbatim>\<open>for name in "${rust_names[@]}"\<close>\<close>

fun run_rust_names :: "world \<Rightarrow> int \<Rightarrow> string list \<Rightarrow> run_state \<Rightarrow> run_state" where
  "run_rust_names w retries [] s = s"
| "run_rust_names w retries (name # names) s =
     run_rust_names w retries names (attempt_loop w retries name 1 s)"

definition rust_selection :: "selection \<Rightarrow> string list" where
  "rust_selection sel =
     (if length (rust_names sel) = 0 then default_names RUST_EXAMPLES RUST_SKIPPED
      else rust_names sel)"

text \<open>
  Under \<^verbatim>\<open>set -e\<close> a failing \<^verbatim>\<open>cargo clean\<close> ends the script with its status, and so does
  \<^verbatim>\<open>ln -s\<close>, which fails when the path is a symbolic link to nothing (\<^verbatim>\<open>-e\<close> is false
  and \<^verbatim>\<open>-L\<close> is true).
\<close>

definition rust_block :: "world \<Rightarrow> selection \<Rightarrow> run_state \<Rightarrow> step" where
  "rust_block w sel s =
     (if \<not> run_rust sel then Continue s
      else
        let names = rust_selection sel;
            checked = validate_names ''rust'' RUST_EXAMPLES RUST_SKIPPED names;
            s1 = emit (fst checked) s
        in if \<not> snd checked then Exit s1 1
           else
             let s2 = emit [Stdout ''Cleaning rust build artifacts before running tutorials...'',
                            CargoClean] s1
             in if cargo_clean_exit w \<noteq> 0 then Exit s2 (cargo_clean_exit w)
                else
                  let s3 = emit [MkdirP (RUNS_DIR w)] s2
                  in if masm_exists w \<and> \<not> masm_is_symlink w
                     then Exit (emit [Stderr (''Expected '' @ RUNS_DIR w @ ''/masm to be a symlink.'')] s3) 1
                     else if \<not> masm_exists w \<and> masm_is_symlink w
                     then Exit (emit [LnS ''../../masm'' (RUNS_DIR w @ ''/masm'')] s3) 1
                     else
                       let s4 = (if \<not> masm_exists w
                                 then emit [LnS ''../../masm'' (RUNS_DIR w @ ''/masm'')] s3
                                 else s3)
                       in Continue (run_rust_names w (rust_retries (TUTORIAL_RETRIES w)) names s4))"

subsection \<open>The end of the script\<close>

text \<open>
  How an invocation ended: in which part of the script, with which exit status, and in
  which state.
\<close>

datatype phase = Parsing | Web | Rust | Aggregating

record result =
  final :: run_state
  exit_status :: nat
  ended_in :: phase

text \<open>
  \<^verbatim>\<open>if [[ ${#failures[@]} -gt 0 ]]; then ... exit 1; fi\<close>; after it the script ends with
  the status of the \<^verbatim>\<open>if\<close> command, which is 0 when its condition was false.
\<close>

definition aggregate :: "run_state \<Rightarrow> result" where
  "aggregate s =
     (if length (failures s) > 0
      then \<lparr>final = emit ([Stdout [], Stdout ''Failures:''] @ print_names (failures s)) s,
            exit_status = 1, ended_in = Aggregating\<rparr>
      else \<lparr>final = s, exit_status = 0, ended_in = Aggregating\<rparr>)"

definition initial_state :: run_state where
  "initial_state = \<lparr>events = [], failures = [], attempts_made = 0\<rparr>"

definition main :: "world \<Rightarrow> string list \<Rightarrow> result" where
  "main w args =
     (case parse_args args no_selection of
        Leave evs code \<Rightarrow> \<lparr>final = emit evs initial_state, exit_status = code, ended_in = Parsing\<rparr>
      | Proceed sel0 \<Rightarrow>
          (let sel = select_all_if_none sel0
           in case web_block w sel initial_state of
                Exit s code \<Rightarrow> \<lparr>final = s, exit_status = code, ended_in = Web\<rparr>
              | Continue s1 \<Rightarrow>
                  (case rust_block w sel s1 of
                     Exit s code \<Rightarrow> \<lparr>final = s, exit_status = code, ended_in = Rust\<rparr>
                   | Continue s2 \<Rightarrow> aggregate s2)))"

definition trace :: "result \<Rightarrow> event list" where
  "trace r = events (final r)"

subsection \<open>The retry setting of the browser tests (web-client/playwright.config.ts)\<close>


subsection \<open>Reading a trace\<close>

text \<open>The directories made, and the directories examples were run in.\<close>

fun made_dirs :: "event list \<Rightarrow> string list" where
  "made_dirs [] = []"
| "made_dirs (MkdirP d # evs) = d # made_dirs evs"
| "made_dirs (e # evs) = made_dirs evs"

fun run_dirs :: "event list \<Rightarrow> string list" where
  "run_dirs [] = []"
| "run_dirs (CargoRun name d # evs) = d # run_dirs evs"
| "run_dirs (e # evs) = run_dirs evs"

text \<open>An event that starts a process or changes the file system.\<close>

fun is_action :: "event \<Rightarrow> bool" where
  "is_action (Stdout l) = False"
| "is_action (Stderr l) = False"
| "is_action e = True"

text \<open>The runs of examples and the sleeps of a trace, in order.\<close>

fun is_run_or_sleep :: "event \<Rightarrow> bool" where
  "is_run_or_sleep (CargoRun name d) = True"
| "is_run_or_sleep (Sleep n) = True"
| "is_run_or_sleep e = False"



fun is_playwright :: "event \<Rightarrow> bool" where
  "is_playwright (Playwright pattern) = True"
| "is_playwright e = False"

text \<open>The events a part of the script added to the state it started from.\<close>

definition new_events :: "run_state \<Rightarrow> run_state \<Rightarrow> event list" where
  "new_events s s' = drop (length (events s)) (events s')"

subsection \<open>Auxiliary functions of the proofs\<close>

text \<open>Reading a decimal numeral back: the inverse of \<open>show_nat\<close>.\<close>

definition read_nat :: "string \<Rightarrow> nat" where
  "read_nat ds = foldl (\<lambda>acc c. 10 * acc + (of_char c - 48)) 0 ds"


section \<open>Concrete inputs\<close>

text \<open>
  A page with a window, a status map holding one finished tutorial, and nothing running.
\<close>

definition example_page :: page where
  "example_page =
     \<lparr>window_defined = True,
      tutorialStatus = Some [''createMintConsume'' \<mapsto> \<lparr>state = Passed, error = None\<rparr>],
      isRunning = False,
      calls = []\<rparr>"

text \<open>
  A checkout in \<^verbatim>\<open>/repo\<close> where every command succeeds, the link to the assembly sources
  is in place, \<^verbatim>\<open>TUTORIAL_RETRIES\<close> is not set, and the clock does not reach the next
  second during the run.
\<close>

definition example_world :: world where
  "example_world =
     \<lparr>ROOT_DIR = ''/repo'', pid = 4242, TUTORIAL_RETRIES = Unset,
      playwright_exit = (\<lambda>pattern. 0), cargo_clean_exit = 0,
      masm_exists = True, masm_is_symlink = True,
      date_output = (\<lambda>n. ''20240101-120000''),
      cargo_run_exit = (\<lambda>name n. 0)\<rparr>"

text \<open>The same, with a browser-test command that fails.\<close>

definition web_failing_world :: world where
  "web_failing_world = example_world\<lparr>playwright_exit := (\<lambda>pattern. 1)\<rparr>"

text \<open>
  The same, with native examples that always fail, a clock that is twelve seconds on at
  the second attempt, and a budget of 2; and the same with a budget of 0.
\<close>

definition rust_failing_world :: world where
  "rust_failing_world =
     example_world
       \<lparr>cargo_run_exit := (\<lambda>name n. 1), TUTORIAL_RETRIES := Decimal 2,
        date_output := (\<lambda>n. if n = 0 then ''20240101-120000'' else ''20240101-120012'')\<rparr>"

definition no_retry_world :: world where
  "no_retry_world =
     example_world\<lparr>cargo_run_exit := (\<lambda>name n. 1), TUTORIAL_RETRIES := Decimal 0\<rparr>"

section \<open>Properties of the browser test page\<close>


lemma status_of_update_same:
  "window_defined p \<Longrightarrow>
   status_of (updateTutorialStatus name st err p) name = Some \<lparr>state = st, error = error_text err\<rparr>"
  by (simp add: updateTutorialStatus_def status_of_def Let_def)

lemma window_defined_update [simp]:
  "window_defined (updateTutorialStatus name st err p) = window_defined p"
  by (simp add: updateTutorialStatus_def Let_def)

lemma window_defined_setIsRunning [simp]:
  "window_defined (setIsRunning v p) = window_defined p"
  by (simp add: setIsRunning_def)

lemma status_of_setIsRunning [simp]: "status_of (setIsRunning v p) n = status_of p n"
  by (simp add: setIsRunning_def status_of_def)

lemma status_of_console_error [simp]: "status_of (console_error l e p) n = status_of p n"
  by (simp add: console_error_def status_of_def)

lemma window_defined_console_error [simp]:
  "window_defined (console_error l e p) = window_defined p"
  by (simp add: console_error_def)

lemma error_text_undefined [simp]: "error_text JUndefined = None"
  by (simp add: error_text_def)

text \<open>The three ways \<^verbatim>\<open>runTutorial\<close> can go, one per outcome of the action.\<close>

lemma runTutorial_Fulfils:
  "runTutorial name Fulfils p =
     Normal (setIsRunning False (updateTutorialStatus name Passed JUndefined
       ((updateTutorialStatus name Running JUndefined (setIsRunning True p))
          \<lparr>calls := calls (updateTutorialStatus name Running JUndefined (setIsRunning True p))
                     @ [ActionInvoked]\<rparr>)))"
  by (simp add: runTutorial_def try_catch_finally_def try_block_def await_action_def
      finally_block_def Let_def)

lemma runTutorial_Rejects:
  "runTutorial name (Rejects e) p =
     Normal (setIsRunning False (updateTutorialStatus name Failed e
       (console_error (''[tutorial:'' @ name @ '']'') e
         ((updateTutorialStatus name Running JUndefined (setIsRunning True p))
            \<lparr>calls := calls (updateTutorialStatus name Running JUndefined (setIsRunning True p))
                       @ [ActionInvoked]\<rparr>))))"
  by (simp add: runTutorial_def try_catch_finally_def try_block_def await_action_def
      catch_block_def finally_block_def Let_def)

lemma runTutorial_NeverSettles:
  "runTutorial name NeverSettles p =
     Hang ((updateTutorialStatus name Running JUndefined (setIsRunning True p))
            \<lparr>calls := calls (updateTutorialStatus name Running JUndefined (setIsRunning True p))
                       @ [ActionInvoked]\<rparr>)"
  by (simp add: runTutorial_def try_catch_finally_def try_block_def await_action_def Let_def)

lemma status_of_calls_update [simp]: "status_of (p\<lparr>calls := cs\<rparr>) n = status_of p n"
  by (simp add: status_of_def)

lemmas runTutorial_unfold =
  runTutorial_def try_catch_finally_def try_block_def catch_block_def finally_block_def
  await_action_def updateTutorialStatus_def setIsRunning_def console_error_def Let_def

lemma calls_runTutorial_Fulfils:
  "window_defined p \<Longrightarrow>
   calls (final_page (runTutorial name Fulfils p)) =
     calls p @ [SetIsRunning True, StatusWrite name \<lparr>state = Running, error = None\<rparr>,
                ActionInvoked, StatusWrite name \<lparr>state = Passed, error = None\<rparr>,
                SetIsRunning False]"
  by (simp add: runTutorial_unfold)

lemma calls_runTutorial_Rejects:
  "window_defined p \<Longrightarrow>
   calls (final_page (runTutorial name (Rejects e) p)) =
     calls p @ [SetIsRunning True, StatusWrite name \<lparr>state = Running, error = None\<rparr>,
                ActionInvoked, ConsoleError (''[tutorial:'' @ name @ '']'') e,
                StatusWrite name \<lparr>state = Failed, error = error_text e\<rparr>,
                SetIsRunning False]"
  by (simp add: runTutorial_unfold)

lemma calls_runTutorial_NeverSettles:
  "window_defined p \<Longrightarrow>
   calls (final_page (runTutorial name NeverSettles p)) =
     calls p @ [SetIsRunning True, StatusWrite name \<lparr>state = Running, error = None\<rparr>,
                ActionInvoked]"
  by (simp add: runTutorial_unfold)

lemma status_runTutorial_Fulfils:
  "window_defined p \<Longrightarrow>
   status_of (final_page (runTutorial name Fulfils p)) name =
     Some \<lparr>state = Passed, error = None\<rparr>"
  by (simp add: runTutorial_Fulfils status_of_update_same)

lemma status_runTutorial_Rejects:
  "window_defined p \<Longrightarrow>
   status_of (final_page (runTutorial name (Rejects e) p)) name =
     Some \<lparr>state = Failed, error = error_text e\<rparr>"
  by (simp add: runTutorial_Rejects status_of_update_same)

lemma status_runTutorial_NeverSettles:
  "window_defined p \<Longrightarrow>
   status_of (final_page (runTutorial name NeverSettles p)) name =
     Some \<lparr>state = Running, error = None\<rparr>"
  by (simp add: runTutorial_NeverSettles status_of_update_same)

lemma settle_runTutorial [simp]:
  "is_resolved (runTutorial name Fulfils p)"
  "is_resolved (runTutorial name (Rejects e) p)"
  "\<not> is_resolved (runTutorial name NeverSettles p)"
  "\<not> is_rejected (runTutorial name action p)"
  by (cases action; simp add: runTutorial_Fulfils runTutorial_Rejects runTutorial_NeverSettles)+







text \<open>
  C10. In the browser page, the calls of a run start with \<^verbatim>\<open>setIsRunning(true)\<close>, the
  write of \<^verbatim>\<open>running\<close> to the entry of the tutorial, and only then the invocation of the
  action. When \<^verbatim>\<open>runTutorial\<close> resolves the entry is \<^verbatim>\<open>passed\<close> or \<^verbatim>\<open>failed\<close>, and it is
  \<^verbatim>\<open>passed\<close> exactly when the action fulfilled: never after a rejection.
\<close>

theorem runTutorial_status_order:
  assumes "window_defined p"
  shows "take 3 (drop (length (calls p)) (calls (final_page (runTutorial name action p)))) =
           [SetIsRunning True, StatusWrite name \<lparr>state = Running, error = None\<rparr>, ActionInvoked] \<and>
         (is_resolved (runTutorial name action p) \<longrightarrow>
            (\<exists>st. status_of (final_page (runTutorial name action p)) name = Some st \<and>
                  (state st = Passed \<or> state st = Failed))) \<and>
         ((\<exists>st. status_of (final_page (runTutorial name action p)) name = Some st \<and>
                state st = Passed) = (action = Fulfils))"
proof (cases action)
  case Fulfils
  then show ?thesis
    using assms
    by (simp add: calls_runTutorial_Fulfils status_runTutorial_Fulfils)
next
  case (Rejects e)
  then show ?thesis
    using assms
    by (simp add: calls_runTutorial_Rejects status_runTutorial_Rejects)
next
  case NeverSettles
  then show ?thesis
    using assms
    by (simp add: calls_runTutorial_NeverSettles status_runTutorial_NeverSettles)
qed

theorem runTutorial_status_order_witness:
  "window_defined example_page \<and>
   calls (final_page (runTutorial ''createMintConsume'' Fulfils example_page)) =
     [SetIsRunning True,
      StatusWrite ''createMintConsume'' \<lparr>state = Running, error = None\<rparr>,
      ActionInvoked,
      StatusWrite ''createMintConsume'' \<lparr>state = Passed, error = None\<rparr>,
      SetIsRunning False] \<and>
   is_resolved (runTutorial ''createMintConsume'' Fulfils example_page) \<and>
   status_of (final_page (runTutorial ''createMintConsume'' Fulfils example_page))
     ''createMintConsume'' = Some \<lparr>state = Passed, error = None\<rparr>"
proof -
  have w: "window_defined example_page"
    by (simp add: example_page_def)
  show ?thesis
    using w runTutorial_status_order [OF w, of "''createMintConsume''" Fulfils]
    by (simp add: calls_runTutorial_Fulfils status_runTutorial_Fulfils example_page_def)
qed

section \<open>Properties of the tutorial runner script\<close>

subsection \<open>Decimal numerals and directory names\<close>

lemma read_nat_snoc: "read_nat (ds @ [c]) = 10 * read_nat ds + (of_char c - 48)"
  by (simp add: read_nat_def)

lemma of_char_digit_char: "d < 10 \<Longrightarrow> (of_char (digit_char d) :: nat) = 48 + d"
  by (simp add: digit_char_def)

lemma read_show_nat: "read_nat (show_nat n) = n"
proof (induction n rule: show_nat.induct)
  case (1 n)
  show ?case
  proof (cases "n < 10")
    case True
    then show ?thesis
      by (subst show_nat.simps) (simp add: read_nat_def of_char_digit_char)
  next
    case False
    then have "read_nat (show_nat (n div 10)) = n div 10"
      using 1 by simp
    then show ?thesis
      using False
      by (subst show_nat.simps) (simp add: read_nat_snoc of_char_digit_char)
  qed
qed

lemma show_nat_inj: "show_nat n = show_nat m \<Longrightarrow> n = m"
  by (metis read_show_nat)

lemma is_digit_digit_char: "d < 10 \<Longrightarrow> is_digit (digit_char d)"
  by (simp add: is_digit_def of_char_digit_char)

lemma show_nat_digits: "c \<in> set (show_nat n) \<Longrightarrow> is_digit c"
proof (induction n arbitrary: c rule: show_nat.induct)
  case (1 n)
  show ?case
  proof (cases "n < 10")
    case True
    then show ?thesis
      using "1.prems" by (subst (asm) show_nat.simps) (simp add: is_digit_digit_char)
  next
    case False
    then show ?thesis
      using "1.prems" "1.IH"
      by (subst (asm) show_nat.simps) (auto simp: is_digit_digit_char)
  qed
qed

lemma takeWhile_until:
  "(\<And>x. x \<in> set xs \<Longrightarrow> P x) \<Longrightarrow> \<not> P c \<Longrightarrow> takeWhile P (xs @ c # ys) = xs"
  by (induction xs) auto

lemma split_before_digits:
  assumes "xs @ c # ds = ys @ c' # es"
    and "\<And>x. x \<in> set ds \<Longrightarrow> P x" and "\<And>x. x \<in> set es \<Longrightarrow> P x"
    and "\<not> P c" and "\<not> P c'"
  shows "xs = ys \<and> ds = es"
proof -
  have "rev ds @ c # rev xs = rev es @ c' # rev ys"
    using assms(1) by (metis rev.simps(2) rev_append append_assoc append_Cons append_Nil)
  then have "takeWhile P (rev ds @ c # rev xs) = takeWhile P (rev es @ c' # rev ys)"
    by simp
  moreover have "takeWhile P (rev ds @ c # rev xs) = rev ds"
    using assms(2,4) by (intro takeWhile_until) auto
  moreover have "takeWhile P (rev es @ c' # rev ys) = rev es"
    using assms(3,5) by (intro takeWhile_until) auto
  ultimately have "ds = es"
    by simp
  then show ?thesis
    using assms(1) by simp
qed

lemma not_digit_dash: "\<not> is_digit CHR ''-''" "\<not> is_digit CHR ''t''"
  by (simp_all add: is_digit_def)

lemma run_dir_inj:
  assumes "run_dir runs n1 t1 p1 a1 = run_dir runs n2 t2 p2 a2"
    and "length t1 = length t2"
  shows "n1 = n2 \<and> t1 = t2 \<and> p1 = p2 \<and> a1 = a2"
proof -
  have e0: "(n1 @ ''-'' @ t1 @ ''-'' @ show_nat p1 @ ''-attemp'') @ CHR ''t'' # show_nat a1 =
            (n2 @ ''-'' @ t2 @ ''-'' @ show_nat p2 @ ''-attemp'') @ CHR ''t'' # show_nat a2"
    using assms(1) by (simp add: run_dir_def run_stamp_def)
  have e1: "n1 @ ''-'' @ t1 @ ''-'' @ show_nat p1 @ ''-attemp'' =
            n2 @ ''-'' @ t2 @ ''-'' @ show_nat p2 @ ''-attemp''"
    and a: "show_nat a1 = show_nat a2"
    using split_before_digits [OF e0, of is_digit] show_nat_digits not_digit_dash by blast+
  have e2: "(n1 @ ''-'' @ t1) @ CHR ''-'' # show_nat p1 = (n2 @ ''-'' @ t2) @ CHR ''-'' # show_nat p2"
    using e1 by simp
  have e3: "n1 @ ''-'' @ t1 = n2 @ ''-'' @ t2" and p: "show_nat p1 = show_nat p2"
    using split_before_digits [OF e2, of is_digit] show_nat_digits not_digit_dash by blast+
  have "(n1 @ ''-'') @ t1 = (n2 @ ''-'') @ t2"
    using e3 by simp
  then have "n1 @ ''-'' = n2 @ ''-'' \<and> t1 = t2"
    using assms(2) by (metis append_eq_append_conv)
  then show ?thesis
    using a p by (simp add: show_nat_inj)
qed

lemma run_dir_attempt_inj:
  "run_dir runs n t1 p a1 = run_dir runs n t2 p a2 \<Longrightarrow> a1 = a2"
proof -
  assume eq: "run_dir runs n t1 p a1 = run_dir runs n t2 p a2"
  have e0: "(n @ ''-'' @ t1 @ ''-'' @ show_nat p @ ''-attemp'') @ CHR ''t'' # show_nat a1 =
            (n @ ''-'' @ t2 @ ''-'' @ show_nat p @ ''-attemp'') @ CHR ''t'' # show_nat a2"
    using eq by (simp add: run_dir_def run_stamp_def)
  have "show_nat a1 = show_nat a2"
    using split_before_digits [OF e0, of is_digit] show_nat_digits not_digit_dash by blast
  then show ?thesis
    by (rule show_nat_inj)
qed



lemma made_dirs_append [simp]: "made_dirs (xs @ ys) = made_dirs xs @ made_dirs ys"
  by (induction xs rule: made_dirs.induct) auto

lemma run_dirs_append [simp]: "run_dirs (xs @ ys) = run_dirs xs @ run_dirs ys"
  by (induction xs rule: run_dirs.induct) auto

lemma made_dirs_attempt_events [simp]: "made_dirs (attempt_events r name a d) = [d]"
  by (simp add: attempt_events_def)

lemma run_dirs_attempt_events [simp]: "run_dirs (attempt_events r name a d) = [d]"
  by (simp add: attempt_events_def)

lemma filter_attempt_events [simp]:
  "filter is_run_or_sleep (attempt_events r name a d) = [CargoRun name d]"
  by (simp add: attempt_events_def)








subsection \<open>Evaluating the script on concrete inputs\<close>

lemma char_of_digit:
  "char_of (48 :: nat) = CHR ''0''" "char_of (49 :: nat) = CHR ''1''"
  "char_of (50 :: nat) = CHR ''2''" "char_of (51 :: nat) = CHR ''3''"
  "char_of (52 :: nat) = CHR ''4''" "char_of (53 :: nat) = CHR ''5''"
  "char_of (54 :: nat) = CHR ''6''" "char_of (55 :: nat) = CHR ''7''"
  "char_of (56 :: nat) = CHR ''8''" "char_of (57 :: nat) = CHR ''9''"
  using char_of_char [of "CHR ''0''", where ?'a = nat] char_of_char [of "CHR ''1''", where ?'a = nat]
    char_of_char [of "CHR ''2''", where ?'a = nat] char_of_char [of "CHR ''3''", where ?'a = nat]
    char_of_char [of "CHR ''4''", where ?'a = nat] char_of_char [of "CHR ''5''", where ?'a = nat]
    char_of_char [of "CHR ''6''", where ?'a = nat] char_of_char [of "CHR ''7''", where ?'a = nat]
    char_of_char [of "CHR ''8''", where ?'a = nat] char_of_char [of "CHR ''9''", where ?'a = nat]
  by simp_all

lemma digit_char_eval:
  "digit_char d =
     (if d = 0 then CHR ''0'' else if d = 1 then CHR ''1'' else if d = 2 then CHR ''2''
      else if d = 3 then CHR ''3'' else if d = 4 then CHR ''4'' else if d = 5 then CHR ''5''
      else if d = 6 then CHR ''6'' else if d = 7 then CHR ''7'' else if d = 8 then CHR ''8''
      else if d = 9 then CHR ''9'' else char_of (48 + d))"
  by (simp add: digit_char_def char_of_digit)

lemmas world_defs = example_world_def web_failing_world_def rust_failing_world_def no_retry_world_def

lemmas script_defs =
  main_def no_selection_def select_all_if_none_def names_follow_def match_arg_def
  add_web_names_def add_rust_names_def name_parts_def
  web_block_def web_selection_def rust_block_def rust_selection_def rust_retries_def
  default_names_def WEB_EXAMPLES_def WEB_SKIPPED_def RUST_EXAMPLES_def RUST_SKIPPED_def
  emit_def initial_state_def aggregate_def print_names_def trace_def
  RUNS_DIR_def RUST_DIR_def WEB_DIR_def run_dir_def run_stamp_def attempt_events_def
  attempt_loop.simps show_nat.simps show_int_def digit_char_eval Let_def

subsection \<open>The retry settings\<close>



subsection \<open>The retry loop\<close>




subsection \<open>Parsing\<close>

lemma print_names_no_action [simp]: "filter is_action (print_names ns) = []"
  by (induction ns) (simp_all add: print_names_def)

lemma listing_no_action [simp]: "filter is_action listing = []"
  by (simp add: listing_def list_class_def)

lemma usage_no_action [simp]: "filter is_action usage = []"
  by (simp add: usage_def)

lemma match_arg_list [simp]: "match_arg ''--list'' = ListFlag"
  by (simp add: match_arg_def)

lemma parse_Leave_no_action:
  "parse_args args sel = Leave evs code \<Longrightarrow> filter is_action evs = []"
  by (induction args sel rule: parse_args.induct)
     (auto split: arg_pattern.splits if_splits)

lemma names_follow_tl:
  "names_follow rest \<Longrightarrow> ''--list'' \<in> set rest \<Longrightarrow> ''--list'' \<in> set (tl rest)"
  by (cases rest) (auto simp: names_follow_def)

lemma parse_list_leaves:
  "''--list'' \<in> set args \<Longrightarrow> \<exists>evs code. parse_args args sel = Leave evs code"
  by (induction args sel rule: parse_args.induct)
     (auto simp: names_follow_tl split: arg_pattern.splits)

lemma names_follow_append:
  "names_follow (rest @ ''--list'' # post) = names_follow rest"
  by (cases rest) (simp_all add: names_follow_def)

lemma names_follow_hd_tl:
  "names_follow rest \<Longrightarrow> hd (rest @ ys) = hd rest \<and> tl (rest @ ys) = tl rest @ ys"
  by (cases rest) (simp_all add: names_follow_def)

lemma parse_prefix_list:
  "parse_args pre sel = Proceed sel' \<Longrightarrow>
   parse_args (pre @ ''--list'' # post) sel = Leave listing 0"
  by (induction pre sel rule: parse_args.induct)
     (auto simp: names_follow_append names_follow_hd_tl split: arg_pattern.splits if_splits)


subsection \<open>Validation and the two classes\<close>

lemma validate_snd:
  "snd (validate_names cls ex sk names) = (find (\<lambda>n. \<not> contains n ex) names = None)"
  by (induction names) (simp_all add: Let_def)

lemma validate_no_action [simp]:
  "filter is_action (fst (validate_names cls ex sk names)) = []"
  by (induction names) (simp_all add: Let_def)

lemma validate_no_playwright [simp]:
  "filter is_playwright (fst (validate_names cls ex sk names)) = []"
  by (induction names) (simp_all add: Let_def)

lemma validate_unknown:
  "find (\<lambda>n. \<not> contains n ex) names = Some bad \<Longrightarrow>
   \<exists>notes. fst (validate_names cls ex sk names) =
     notes @ [Stderr (''Unknown '' @ cls @ '' tutorial: '' @ bad),
              Stderr (''Available '' @ cls @ '' tutorials: '' @ join_with CHR '' '' ex)]"
proof (induction names)
  case Nil
  then show ?case by simp
next
  case (Cons n names)
  show ?case
  proof (cases "contains n ex")
    case True
    then obtain pre where "fst (validate_names cls ex sk names) =
        pre @ [Stderr (''Unknown '' @ cls @ '' tutorial: '' @ bad),
                 Stderr (''Available '' @ cls @ '' tutorials: '' @ join_with CHR '' '' ex)]"
      using Cons by auto
    then show ?thesis
      using True by (simp add: Let_def)
  next
    case False
    then have "bad = n" using Cons.prems by simp
    then show ?thesis
      using False by simp
  qed
qed

lemma web_block_skip: "\<not> run_web sel \<Longrightarrow> web_block w sel s = Continue s"
  by (simp add: web_block_def)

lemma web_block_unknown:
  assumes "run_web sel" and "find (\<lambda>n. \<not> contains n WEB_EXAMPLES) (web_selection sel) = Some bad"
  shows "\<exists>evs. web_block w sel s = Exit (s\<lparr>events := events s @ evs\<rparr>) 1 \<and>
           filter is_action evs = [] \<and>
           (\<exists>notes. evs = notes @
              [Stderr (''Unknown web tutorial: '' @ bad),
               Stderr (''Available web tutorials: '' @ join_with CHR '' '' WEB_EXAMPLES)])"
proof -
  have "\<not> snd (validate_names ''web'' WEB_EXAMPLES WEB_SKIPPED (web_selection sel))"
    using assms(2) by (simp add: validate_snd)
  then have "web_block w sel s =
      Exit (s\<lparr>events := events s @
              fst (validate_names ''web'' WEB_EXAMPLES WEB_SKIPPED (web_selection sel))\<rparr>) 1"
    using assms(1) by (simp add: web_block_def Let_def emit_def)
  moreover have "\<exists>notes. fst (validate_names ''web'' WEB_EXAMPLES WEB_SKIPPED (web_selection sel)) =
      notes @ [Stderr (''Unknown web tutorial: '' @ bad),
               Stderr (''Available web tutorials: '' @ join_with CHR '' '' WEB_EXAMPLES)]"
    using validate_unknown [OF assms(2), of "''web''" WEB_SKIPPED] by simp
  ultimately show ?thesis
    by (intro exI [of _ "fst (validate_names ''web'' WEB_EXAMPLES WEB_SKIPPED (web_selection sel))"])
       simp
qed

lemma web_block_known:
  assumes "run_web sel" and "find (\<lambda>n. \<not> contains n WEB_EXAMPLES) (web_selection sel) = None"
  shows "\<exists>notes. web_block w sel s =
           Continue (s\<lparr>events := events s @ notes @
                        [Playwright (join_with CHR ''|'' (web_selection sel))],
                      failures := failures s @
                        (if playwright_exit w (join_with CHR ''|'' (web_selection sel)) \<noteq> 0
                         then [''web''] else [])\<rparr>) \<and>
           filter is_action notes = []"
proof -
  have ok: "snd (validate_names ''web'' WEB_EXAMPLES WEB_SKIPPED (web_selection sel))"
    using assms(2) by (simp add: validate_snd)
  have "web_block w sel s =
      Continue (s\<lparr>events := events s @
                   (fst (validate_names ''web'' WEB_EXAMPLES WEB_SKIPPED (web_selection sel)) @
                    [Stdout (''Running web tutorials: '' @ join_with CHR '' '' (web_selection sel))]) @
                   [Playwright (join_with CHR ''|'' (web_selection sel))],
                 failures := failures s @
                   (if playwright_exit w (join_with CHR ''|'' (web_selection sel)) \<noteq> 0
                    then [''web''] else [])\<rparr>)"
    using ok assms(1) by (simp add: web_block_def Let_def emit_def)
  then show ?thesis
    by (intro exI [of _ "fst (validate_names ''web'' WEB_EXAMPLES WEB_SKIPPED (web_selection sel)) @
          [Stdout (''Running web tutorials: '' @ join_with CHR '' '' (web_selection sel))]"])
       simp
qed

lemma rust_block_skip: "\<not> run_rust sel \<Longrightarrow> rust_block w sel s = Continue s"
  by (simp add: rust_block_def)

lemma rust_block_unknown:
  assumes "run_rust sel" and "find (\<lambda>n. \<not> contains n RUST_EXAMPLES) (rust_selection sel) = Some bad"
  shows "\<exists>evs. rust_block w sel s = Exit (s\<lparr>events := events s @ evs\<rparr>) 1 \<and>
           filter is_action evs = [] \<and>
           (\<exists>notes. evs = notes @
              [Stderr (''Unknown rust tutorial: '' @ bad),
               Stderr (''Available rust tutorials: '' @ join_with CHR '' '' RUST_EXAMPLES)])"
proof -
  have "\<not> snd (validate_names ''rust'' RUST_EXAMPLES RUST_SKIPPED (rust_selection sel))"
    using assms(2) by (simp add: validate_snd)
  then have "rust_block w sel s =
      Exit (s\<lparr>events := events s @
              fst (validate_names ''rust'' RUST_EXAMPLES RUST_SKIPPED (rust_selection sel))\<rparr>) 1"
    using assms(1) by (simp add: rust_block_def Let_def emit_def)
  moreover have "\<exists>notes. fst (validate_names ''rust'' RUST_EXAMPLES RUST_SKIPPED (rust_selection sel)) =
      notes @ [Stderr (''Unknown rust tutorial: '' @ bad),
               Stderr (''Available rust tutorials: '' @ join_with CHR '' '' RUST_EXAMPLES)]"
    using validate_unknown [OF assms(2), of "''rust''" RUST_SKIPPED] by simp
  ultimately show ?thesis
    by (intro exI [of _ "fst (validate_names ''rust'' RUST_EXAMPLES RUST_SKIPPED (rust_selection sel))"])
       simp
qed


lemma filter_playwright_attempt_events [simp]:
  "filter is_playwright (attempt_events r name a d) = []"
  by (simp add: attempt_events_def)




lemma attempt_loop_dirs:
  "n = nat (r - int a) \<Longrightarrow>
   \<exists>evs m. events (attempt_loop w r name a s) = events s @ evs \<and>
     made_dirs evs = run_dirs evs \<and>
     run_dirs evs =
       map (\<lambda>k. run_dir (RUNS_DIR w) name (date_output w (attempts_made s + k)) (pid w) (a + k))
         [0..<m]"
proof (induction n arbitrary: a s)
  case 0
  then have le: "r \<le> int a" by simp
  have "events (attempt_loop w r name a s) = events s @
      attempt_events r name a (run_dir (RUNS_DIR w) name (date_output w (attempts_made s)) (pid w) a)"
    using le by (subst attempt_loop.simps) (simp add: Let_def emit_def)
  then show ?case
    by (intro exI [of _ "attempt_events r name a
          (run_dir (RUNS_DIR w) name (date_output w (attempts_made s)) (pid w) a)"] exI [of _ 1])
       simp
next
  case (Suc n)
  then have lt: "\<not> r \<le> int a" and n: "n = nat (r - int (a + 1))"
    by auto
  let ?d = "run_dir (RUNS_DIR w) name (date_output w (attempts_made s)) (pid w) a"
  show ?case
  proof (cases "cargo_run_exit w name (attempts_made s) = 0")
    case True
    then have "events (attempt_loop w r name a s) = events s @ attempt_events r name a ?d"
      by (subst attempt_loop.simps) (simp add: Let_def emit_def)
    then show ?thesis
      by (intro exI [of _ "attempt_events r name a ?d"] exI [of _ 1]) simp
  next
    case False
    let ?s2 = "emit [Stdout (''Retrying rust tutorial: '' @ name @ '' in 10s...''), Sleep 10]
                 ((emit (attempt_events r name a ?d) s)\<lparr>attempts_made := Suc (attempts_made s)\<rparr>)"
    have step: "attempt_loop w r name a s = attempt_loop w r name (a + 1) ?s2"
      using False lt by (subst attempt_loop.simps) (simp add: Let_def)
    obtain evs m where evs: "events (attempt_loop w r name (a + 1) ?s2) = events ?s2 @ evs"
      and same: "made_dirs evs = run_dirs evs"
      and dirs: "run_dirs evs =
        map (\<lambda>k. run_dir (RUNS_DIR w) name (date_output w (attempts_made ?s2 + k)) (pid w) (a + 1 + k))
          [0..<m]"
      using Suc.IH [OF n, of ?s2] by blast
    have upt: "[0..<Suc m] = 0 # map Suc [0..<m]"
      by (metis map_Suc_upt upt_conv_Cons zero_less_Suc)
    let ?all = "attempt_events r name a ?d @
        [Stdout (''Retrying rust tutorial: '' @ name @ '' in 10s...''), Sleep 10] @ evs"
    have "events (attempt_loop w r name a s) = events s @ ?all"
      using evs by (simp add: step emit_def)
    moreover have "made_dirs ?all = run_dirs ?all"
      using same by simp
    moreover have "run_dirs ?all =
        map (\<lambda>k. run_dir (RUNS_DIR w) name (date_output w (attempts_made s + k)) (pid w) (a + k))
          [0..<Suc m]"
      using dirs by (simp add: upt emit_def comp_def del: upt_Suc)
    ultimately show ?thesis
      by blast
  qed
qed

lemma attempt_loop_distinct_dirs:
  "distinct (run_dirs (new_events s (attempt_loop w r name a s)))"
proof -
  obtain evs m where evs: "events (attempt_loop w r name a s) = events s @ evs"
    and dirs: "run_dirs evs =
      map (\<lambda>k. run_dir (RUNS_DIR w) name (date_output w (attempts_made s + k)) (pid w) (a + k))
        [0..<m]"
    using attempt_loop_dirs [OF refl, of w r name a s] by blast
  have "inj_on (\<lambda>k. run_dir (RUNS_DIR w) name (date_output w (attempts_made s + k)) (pid w) (a + k))
          (set [0..<m])"
    by (rule inj_onI) (use run_dir_attempt_inj in fastforce)
  then have "distinct (run_dirs evs)"
    by (simp only: dirs distinct_map distinct_upt)
  then show ?thesis
    by (simp add: new_events_def evs)
qed


subsection \<open>The whole invocation\<close>

lemma main_aggregates:
  "ended_in (main w args) = Aggregating \<Longrightarrow> \<exists>s. main w args = aggregate s"
  by (auto simp: main_def Let_def split: parsed.splits step.splits)

text \<open>
  C2. For every invocation that reaches the aggregation at the end of the script, the
  exit status is 0 if and only if the array of failures is empty; when it is not empty,
  the exit status is not 0 and the last lines printed are an empty line, \<^verbatim>\<open>Failures:\<close> and
  one indented line for every recorded failure tag, in the order they were recorded.
\<close>

theorem exit_status_iff_no_failures:
  assumes "ended_in (main w args) = Aggregating"
  shows "((exit_status (main w args) = 0) = (failures (final (main w args)) = [])) \<and>
         (failures (final (main w args)) \<noteq> [] \<longrightarrow>
            exit_status (main w args) \<noteq> 0 \<and>
            (\<exists>before. trace (main w args) =
               before @ [Stdout [], Stdout ''Failures:''] @
               map (\<lambda>tag. Stdout (''  '' @ tag)) (failures (final (main w args)))))"
proof -
  obtain s where s: "main w args = aggregate s"
    using main_aggregates [OF assms] by blast
  show ?thesis
    unfolding s
    by (simp add: aggregate_def emit_def trace_def print_names_def)
qed

theorem exit_status_iff_no_failures_witness:
  "ended_in (main web_failing_world [''--web'']) = Aggregating \<and>
   exit_status (main web_failing_world [''--web'']) = 1 \<and>
   failures (final (main web_failing_world [''--web''])) = [''web''] \<and>
   trace (main web_failing_world [''--web'']) =
     [Stdout ''Running web tutorials: createMintConsume multiSendWithDelegatedProver unauthenticatedNoteTransfer'',
      Playwright ''createMintConsume|multiSendWithDelegatedProver|unauthenticatedNoteTransfer'',
      Stdout [], Stdout ''Failures:'', Stdout ''  web'']"
proof -
  have h: "ended_in (main web_failing_world [''--web'']) = Aggregating"
    by (simp add: world_defs script_defs)
  show ?thesis
    using h exit_status_iff_no_failures [OF h]
    by (simp add: world_defs script_defs)
qed





text \<open>
  C4, as the code has it. Take an invocation whose arguments are parsed to the end (no
  listing or help flag, no unrecognised argument). If the browser class is selected and
  \<open>bad\<close> is the first requested browser name that is not in the browser catalog, the
  script prints that name and the catalog on stderr as its last two lines, exits with
  status 1, and has run no command and made no directory. If the browser selection is
  valid or the browser class is not selected, the native class is selected and \<open>bad\<close> is
  the first requested native name that is not in the native catalog, the script prints
  that name and the native catalog on stderr as its last two lines, exits with status 1,
  and has made no directory and run no native command; the only command it has run is the
  browser-test command, once, when the browser class is selected.
\<close>

theorem unknown_name_is_fatal:
  assumes "parse_args args no_selection = Proceed sel"
  shows "(run_web (select_all_if_none sel) \<and>
          find (\<lambda>n. \<not> contains n WEB_EXAMPLES) (web_selection (select_all_if_none sel)) = Some bad \<longrightarrow>
            exit_status (main w args) = 1 \<and> ended_in (main w args) = Web \<and>
            filter is_action (trace (main w args)) = [] \<and>
            (\<exists>before. trace (main w args) =
               before @ [Stderr (''Unknown web tutorial: '' @ bad),
                         Stderr (''Available web tutorials: '' @ join_with CHR '' '' WEB_EXAMPLES)])) \<and>
         ((run_web (select_all_if_none sel) \<longrightarrow>
             find (\<lambda>n. \<not> contains n WEB_EXAMPLES) (web_selection (select_all_if_none sel)) = None) \<and>
          run_rust (select_all_if_none sel) \<and>
          find (\<lambda>n. \<not> contains n RUST_EXAMPLES) (rust_selection (select_all_if_none sel)) = Some bad \<longrightarrow>
            exit_status (main w args) = 1 \<and> ended_in (main w args) = Rust \<and>
            filter is_action (trace (main w args)) =
              (if run_web (select_all_if_none sel)
               then [Playwright (join_with CHR ''|'' (web_selection (select_all_if_none sel)))]
               else []) \<and>
            (\<exists>before. trace (main w args) =
               before @ [Stderr (''Unknown rust tutorial: '' @ bad),
                         Stderr (''Available rust tutorials: '' @ join_with CHR '' '' RUST_EXAMPLES)]))"
proof (intro conjI impI)
  let ?sel = "select_all_if_none sel"
  {
    assume a: "run_web ?sel \<and>
      find (\<lambda>n. \<not> contains n WEB_EXAMPLES) (web_selection ?sel) = Some bad"
    obtain evs where web: "web_block w ?sel initial_state =
        Exit (initial_state\<lparr>events := events initial_state @ evs\<rparr>) 1"
      and quiet: "filter is_action evs = []"
      and last2: "\<exists>pre. evs = pre @ [Stderr (''Unknown web tutorial: '' @ bad),
               Stderr (''Available web tutorials: '' @ join_with CHR '' '' WEB_EXAMPLES)]"
      using web_block_unknown [of ?sel bad w initial_state] a by auto
    have m: "main w args = \<lparr>final = initial_state\<lparr>events := events initial_state @ evs\<rparr>,
        exit_status = 1, ended_in = Web\<rparr>"
      using assms web by (simp add: main_def Let_def)
    show "exit_status (main w args) = 1" "ended_in (main w args) = Web"
      "filter is_action (trace (main w args)) = []"
      "\<exists>before. trace (main w args) =
         before @ [Stderr (''Unknown web tutorial: '' @ bad),
                   Stderr (''Available web tutorials: '' @ join_with CHR '' '' WEB_EXAMPLES)]"
      using quiet last2 by (simp_all add: m trace_def initial_state_def)
  }
  {
    assume a: "(run_web ?sel \<longrightarrow>
        find (\<lambda>n. \<not> contains n WEB_EXAMPLES) (web_selection ?sel) = None) \<and>
      run_rust ?sel \<and>
      find (\<lambda>n. \<not> contains n RUST_EXAMPLES) (rust_selection ?sel) = Some bad"
    let ?pw = "if run_web ?sel then [Playwright (join_with CHR ''|'' (web_selection ?sel))] else []"
    have "\<exists>s1. web_block w ?sel initial_state = Continue s1 \<and>
        filter is_action (events s1) = ?pw"
    proof (cases "run_web ?sel")
      case True
      then have none: "find (\<lambda>n. \<not> contains n WEB_EXAMPLES) (web_selection ?sel) = None"
        using a by simp
      obtain pre where "web_block w ?sel initial_state =
          Continue (initial_state\<lparr>events := events initial_state @ pre @
                        [Playwright (join_with CHR ''|'' (web_selection ?sel))],
                      failures := failures initial_state @
                        (if playwright_exit w (join_with CHR ''|'' (web_selection ?sel)) \<noteq> 0
                         then [''web''] else [])\<rparr>)"
        and "filter is_action pre = []"
        using web_block_known [OF True none, of w initial_state] by blast
      then show ?thesis
        using True by (simp add: initial_state_def)
    next
      case False
      then show ?thesis
        by (simp add: web_block_skip initial_state_def)
    qed
    then obtain s1 where web: "web_block w ?sel initial_state = Continue s1"
      and s1: "filter is_action (events s1) = ?pw"
      by blast
    obtain evs where rust: "rust_block w ?sel s1 = Exit (s1\<lparr>events := events s1 @ evs\<rparr>) 1"
      and quiet: "filter is_action evs = []"
      and last2: "\<exists>pre. evs = pre @ [Stderr (''Unknown rust tutorial: '' @ bad),
               Stderr (''Available rust tutorials: '' @ join_with CHR '' '' RUST_EXAMPLES)]"
      using rust_block_unknown [of ?sel bad w s1] a by auto
    have m: "main w args = \<lparr>final = s1\<lparr>events := events s1 @ evs\<rparr>,
        exit_status = 1, ended_in = Rust\<rparr>"
      using assms web rust by (simp add: main_def Let_def)
    obtain pre where pre: "evs = pre @ [Stderr (''Unknown rust tutorial: '' @ bad),
               Stderr (''Available rust tutorials: '' @ join_with CHR '' '' RUST_EXAMPLES)]"
      using last2 by blast
    have "trace (main w args) = (events s1 @ pre) @ [Stderr (''Unknown rust tutorial: '' @ bad),
               Stderr (''Available rust tutorials: '' @ join_with CHR '' '' RUST_EXAMPLES)]"
      by (simp add: m trace_def pre)
    then show "\<exists>before. trace (main w args) =
         before @ [Stderr (''Unknown rust tutorial: '' @ bad),
                   Stderr (''Available rust tutorials: '' @ join_with CHR '' '' RUST_EXAMPLES)]"
      by blast
    show "exit_status (main w args) = 1" "ended_in (main w args) = Rust"
      "filter is_action (trace (main w args)) = ?pw"
      using quiet s1 by (simp_all add: m trace_def)
  }
qed

theorem unknown_name_is_fatal_witness:
  "parse_args [''--rust=does_not_exist''] no_selection =
     Proceed \<lparr>run_web = False, run_rust = True, saw_selector = True,
              web_names = [], rust_names = [''does_not_exist'']\<rparr> \<and>
   exit_status (main example_world [''--rust=does_not_exist'']) = 1 \<and>
   ended_in (main example_world [''--rust=does_not_exist'']) = Rust \<and>
   filter is_action (trace (main example_world [''--rust=does_not_exist''])) = []"
proof -
  let ?sel = "\<lparr>run_web = False, run_rust = True, saw_selector = True,
               web_names = [], rust_names = [''does_not_exist'']\<rparr>"
  have h1: "parse_args [''--rust=does_not_exist''] no_selection = Proceed ?sel"
    by (simp add: script_defs)
  show ?thesis
    using h1 unknown_name_is_fatal [OF h1, of "''does_not_exist''" example_world]
    by (simp add: script_defs)
qed

text \<open>
  C4 as stated fails: the native names are validated only after the browser class has
  run. With \<^verbatim>\<open>--web --rust=does_not_exist\<close> the browser-test command is executed before
  the unknown native name is reported.
\<close>

theorem unknown_rust_name_after_web_counterexample:
  "\<not> contains ''does_not_exist'' RUST_EXAMPLES \<and>
   filter is_action (trace (main example_world [''--web'', ''--rust=does_not_exist''])) =
     [Playwright ''createMintConsume|multiSendWithDelegatedProver|unauthenticatedNoteTransfer'']"
  by (simp add: world_defs script_defs)

subsection \<open>Attempt directories\<close>

text \<open>
  C6, as the code has it. The directory of an attempt is named from the example name,
  the timestamp, the process id and the attempt number; with timestamps in the format of
  \<^verbatim>\<open>date +%Y%m%d-%H%M%S\<close> (15 characters), two attempts get the same directory exactly
  when they agree in all four. Every attempt of a retry loop is run in the directory made
  for it, and the directories of the attempts of one retry loop are pairwise distinct,
  whatever the clock and the exit statuses are.
\<close>

theorem run_dir_unique:
  assumes "length t1 = 15" and "length t2 = 15"
  shows "((run_dir runs n1 t1 p1 a1 = run_dir runs n2 t2 p2 a2) =
            (n1 = n2 \<and> t1 = t2 \<and> p1 = p2 \<and> a1 = a2)) \<and>
         made_dirs (new_events s (attempt_loop w r name a s)) =
           run_dirs (new_events s (attempt_loop w r name a s)) \<and>
         distinct (run_dirs (new_events s (attempt_loop w r name a s)))"
proof -
  have "run_dir runs n1 t1 p1 a1 = run_dir runs n2 t2 p2 a2 \<Longrightarrow>
      n1 = n2 \<and> t1 = t2 \<and> p1 = p2 \<and> a1 = a2"
    using run_dir_inj [of runs n1 t1 p1 a1 n2 t2 p2 a2] assms by simp
  then have "(run_dir runs n1 t1 p1 a1 = run_dir runs n2 t2 p2 a2) =
      (n1 = n2 \<and> t1 = t2 \<and> p1 = p2 \<and> a1 = a2)"
    by blast
  moreover obtain evs m where "events (attempt_loop w r name a s) = events s @ evs"
    and "made_dirs evs = run_dirs evs"
    using attempt_loop_dirs [OF refl, of w r name a s] by blast
  then have "made_dirs (new_events s (attempt_loop w r name a s)) =
      run_dirs (new_events s (attempt_loop w r name a s))"
    by (simp add: new_events_def)
  ultimately show ?thesis
    using attempt_loop_distinct_dirs by blast
qed

theorem run_dir_unique_witness:
  "length ''20240101-120000'' = 15 \<and> length ''20240101-120010'' = 15 \<and>
   run_dir ''/repo/rust-client/.tutorial-runs'' ''mapping_example'' ''20240101-120000'' 4242 1 \<noteq>
   run_dir ''/repo/rust-client/.tutorial-runs'' ''mapping_example'' ''20240101-120010'' 4242 1"
proof -
  have h1: "length ''20240101-120000'' = 15" and h2: "length ''20240101-120010'' = 15"
    by simp_all
  show ?thesis
    using h1 h2
      run_dir_unique [OF h1 h2, of "''/repo/rust-client/.tutorial-runs''" "''mapping_example''"
        4242 1 "''mapping_example''" 4242 1]
    by simp
qed

text \<open>
  C6 as stated fails: the timestamp has a resolution of one second and \<^verbatim>\<open>mkdir -p\<close>
  accepts a directory that exists. When an example is named twice and its first attempt
  ends within the second it started in, the first attempt of the second run gets the
  same directory.
\<close>

theorem same_second_counterexample:
  "\<not> distinct (run_dirs (trace
        (main example_world [''--rust=mapping_example,mapping_example''])))"
  by (simp add: world_defs script_defs)

subsection \<open>The listing flag\<close>

text \<open>
  C7, as the code has it. An invocation with the listing flag among its arguments runs
  no command and makes no directory, and it ends while the arguments are parsed. When
  the arguments before the first listing flag are all class selectors (they are parsed
  without leaving the script), it prints, for the browser class and then for the native
  class, the default-enabled names followed by the names skipped by default, and exits
  with status 0.
\<close>

theorem list_flag_runs_nothing:
  "filter is_action (trace (main w (pre @ ''--list'' # post))) = [] \<and>
   ended_in (main w (pre @ ''--list'' # post)) = Parsing \<and>
   (parse_args pre no_selection = Proceed sel \<longrightarrow>
      exit_status (main w (pre @ ''--list'' # post)) = 0 \<and>
      trace (main w (pre @ ''--list'' # post)) =
        [Stdout ''Web tutorials (default):''] @
        print_names (default_names WEB_EXAMPLES WEB_SKIPPED) @
        [Stdout [], Stdout ''Web tutorials (skipped by default):''] @
        print_names WEB_SKIPPED @
        [Stdout [], Stdout ''Rust tutorials (default):''] @
        print_names (default_names RUST_EXAMPLES RUST_SKIPPED) @
        [Stdout [], Stdout ''Rust tutorials (skipped by default):''] @
        print_names RUST_SKIPPED)"
proof -
  let ?args = "pre @ ''--list'' # post"
  obtain evs code where leave: "parse_args ?args no_selection = Leave evs code"
    using parse_list_leaves [of ?args no_selection] by auto
  have m: "main w ?args =
      \<lparr>final = emit evs initial_state, exit_status = code, ended_in = Parsing\<rparr>"
    by (simp add: main_def leave)
  have quiet: "filter is_action evs = []"
    using parse_Leave_no_action [OF leave] .
  have "exit_status (main w ?args) = 0 \<and> trace (main w ?args) = listing"
    if "parse_args pre no_selection = Proceed sel"
    using parse_prefix_list [OF that, of post] leave
    by (simp add: m trace_def emit_def initial_state_def)
  moreover have "listing =
        [Stdout ''Web tutorials (default):''] @
        print_names (default_names WEB_EXAMPLES WEB_SKIPPED) @
        [Stdout [], Stdout ''Web tutorials (skipped by default):''] @
        print_names WEB_SKIPPED @
        [Stdout [], Stdout ''Rust tutorials (default):''] @
        print_names (default_names RUST_EXAMPLES RUST_SKIPPED) @
        [Stdout [], Stdout ''Rust tutorials (skipped by default):''] @
        print_names RUST_SKIPPED"
    by (simp add: listing_def list_class_def WEB_SKIPPED_def RUST_SKIPPED_def)
  ultimately show ?thesis
    using quiet by (simp add: m trace_def emit_def initial_state_def)
qed

theorem list_flag_runs_nothing_witness:
  "parse_args [''--web''] no_selection =
     Proceed \<lparr>run_web = True, run_rust = False, saw_selector = True,
              web_names = [], rust_names = []\<rparr> \<and>
   exit_status (main example_world [''--web'', ''--list'']) = 0 \<and>
   ended_in (main example_world [''--web'', ''--list'']) = Parsing \<and>
   trace (main example_world [''--web'', ''--list'']) =
     [Stdout ''Web tutorials (default):'',
      Stdout ''  createMintConsume'',
      Stdout ''  multiSendWithDelegatedProver'',
      Stdout ''  unauthenticatedNoteTransfer'',
      Stdout [],
      Stdout ''Web tutorials (skipped by default):'',
      Stdout ''  incrementCounterContract'',
      Stdout ''  foreignProcedureInvocation'',
      Stdout [],
      Stdout ''Rust tutorials (default):'',
      Stdout ''  counter_contract_deploy'',
      Stdout ''  create_mint_consume_send'',
      Stdout ''  delegated_prover'',
      Stdout ''  hash_preimage_note'',
      Stdout ''  mapping_example'',
      Stdout ''  network_notes_counter_contract'',
      Stdout ''  note_creation_in_masm'',
      Stdout ''  unauthenticated_note_transfer'',
      Stdout [],
      Stdout ''Rust tutorials (skipped by default):'',
      Stdout ''  counter_contract_fpi'',
      Stdout ''  counter_contract_increment'',
      Stdout ''  oracle_data_query'']"
proof -
  let ?sel = "\<lparr>run_web = True, run_rust = False, saw_selector = True,
               web_names = [], rust_names = []\<rparr>"
  have h1: "parse_args [''--web''] no_selection = Proceed ?sel"
    by (simp add: script_defs)
  show ?thesis
    using h1 list_flag_runs_nothing [of example_world "[''--web'']" "[]" ?sel]
    by (simp add: script_defs)
qed

text \<open>
  C7 as stated fails: the arguments are handled in order, so an unrecognised argument
  before the listing flag ends the script with the usage text and exit status 1.
\<close>

theorem list_after_unknown_argument_counterexample:
  "exit_status (main example_world [''--bogus'', ''--list'']) = 1"
  by (simp add: world_defs script_defs)

end
